theory Spec2Isabelle
  imports Complex_Main "HOL-Library.AList"
begin

section \<open>Native values and wire values\<close>

text \<open>
  A JavaScript number is a double. \<open>Number.isInteger\<close> holds exactly on \<open>Whole n\<close>;
  \<open>NonWhole r\<close> is a finite double with a fractional part. The codec only ever
  inspects whole numbers, every other number is passed through unchanged.
\<close>

datatype jsnum = Whole int | NonWhole rat | NaN | PosInfinity | NegInfinity

text \<open>
  The values the backend handles. \<open>JDate None\<close> is an invalid Date (its time value
  is NaN), \<open>JDate (Some t)\<close> a Date \<open>t\<close> milliseconds after the epoch. An object is
  the list of its own enumerable entries in insertion order. \<open>JOther t\<close> is any value
  whose \<open>typeof\<close> is \<open>t\<close> = function, symbol or bigint. Values are finite trees, so
  cyclic objects are outside the model.
\<close>

datatype jsval =
    JNull
  | JUndefined
  | JString string
  | JNumber jsnum
  | JBoolean bool
  | JDate "int option"
  | JArray "jsval list"
  | JObject "(string \<times> jsval) list"
  | JOther string

text \<open>
  The text of a \<open>timestampValue\<close>: \<open>ISOText t\<close> is the ISO-8601 UTC text that
  \<open>Date.prototype.toISOString\<close> gives for the instant \<open>t\<close> and that the \<open>Date\<close>
  constructor reads back as \<open>t\<close>; \<open>Unparseable s\<close> is a text the constructor
  cannot read.
\<close>

datatype timestamp_text = ISOText int | Unparseable string

text \<open>
  A Firestore value object carries one tag. \<open>UnknownValue tag\<close> carries a tag the
  client does not know (the store also has bytes, reference and geo point values).
  An element of \<open>arrayValue.values\<close> can be \<open>undefined\<close> in memory (\<open>None\<close>).
\<close>

datatype fsval =
    NullValue
  | StringValue string
  | IntegerValue string
  | DoubleValue jsnum
  | BooleanValue bool
  | TimestampValue timestamp_text
  | ArrayValue "fsval option list"
  | MapValue "(string \<times> fsval) list"
  | UnknownValue string

datatype js_error =
    Error string
  | RetryableError string
  | TypeError string
  | RangeError string
  | SyntaxError string
  | ZodError "(string list \<times> string) list"

section \<open>Number to text and back\<close>

definition digit_char :: "nat \<Rightarrow> char" where
  "digit_char d = ''0123456789'' ! d"

fun show_nat :: "nat \<Rightarrow> string" where
  "show_nat n = (if n < 10 then [digit_char n] else show_nat (n div 10) @ [digit_char (n mod 10)])"

declare show_nat.simps [simp del]

definition strip_trailing_zeros :: "string \<Rightarrow> string" where
  "strip_trailing_zeros ds = rev (dropWhile (\<lambda>c. c = CHR ''0'') (rev ds))"

text \<open>
  \<open>Number.prototype.toString\<close> on a whole number: plain decimal digits below
  \<open>10^21\<close>, exponent notation from there on (\<open>1e+21\<close>). In exponent notation
  JavaScript prints the shortest digits that identify the double; the exact digits
  printed here agree with it on the numbers with at most 15 significant digits.
\<close>

definition exponent_form :: "nat \<Rightarrow> string" where
  "exponent_form m =
     (let ds = show_nat m; frac = strip_trailing_zeros (tl ds)
      in [hd ds] @ (if frac = [] then [] else ''.'' @ frac) @ ''e+'' @ show_nat (length ds - 1))"

definition Number_toString :: "int \<Rightarrow> string" where
  "Number_toString n =
     (let m = nat \<bar>n\<bar>; sign = (if n < 0 then ''-'' else [])
      in if \<bar>n\<bar> < 10 ^ 21 then sign @ show_nat m else sign @ exponent_form m)"

text \<open>The value of a digit, by its character code (\<open>0\<close> is 48, \<open>A\<close> is 65, \<open>a\<close> is 97).\<close>

definition digit_val :: "char \<Rightarrow> nat option" where
  "digit_val c = (let k = (of_char c :: nat) in if 48 \<le> k \<and> k \<le> 57 then Some (k - 48) else None)"

definition hex_val :: "char \<Rightarrow> nat option" where
  "hex_val c =
     (let k = (of_char c :: nat)
      in if 48 \<le> k \<and> k \<le> 57 then Some (k - 48)
         else if 97 \<le> k \<and> k \<le> 102 then Some (k - 87)
         else if 65 \<le> k \<and> k \<le> 70 then Some (k - 55)
         else None)"

text \<open>The value of the longest prefix of digits, and whether there was a digit.\<close>

fun read_digits :: "(char \<Rightarrow> nat option) \<Rightarrow> nat \<Rightarrow> nat \<Rightarrow> bool \<Rightarrow> string \<Rightarrow> nat option" where
  "read_digits val radix acc seen [] = (if seen then Some acc else None)"
| "read_digits val radix acc seen (c # cs) =
     (case val c of
        Some d \<Rightarrow> read_digits val radix (acc * radix + d) True cs
      | None \<Rightarrow> (if seen then Some acc else None))"

definition is_space :: "char \<Rightarrow> bool" where
  "is_space c = (c \<in> set [CHR '' '', CHR 0x09, CHR 0x0A, CHR 0x0B, CHR 0x0C, CHR 0x0D])"

text \<open>
  \<open>parseInt(s)\<close> with no radix: leading white space and a sign are skipped, a
  \<open>0x\<close> prefix selects base 16, the longest prefix of digits is read, and the
  result is NaN when there is no digit.
\<close>

definition parseInt :: "string \<Rightarrow> jsnum" where
  "parseInt s =
     (let t = dropWhile is_space s;
          neg = (t \<noteq> [] \<and> hd t = CHR ''-'');
          u = (if t \<noteq> [] \<and> (hd t = CHR ''-'' \<or> hd t = CHR ''+'') then tl t else t);
          r = (if take 2 u = ''0x'' \<or> take 2 u = ''0X''
               then read_digits hex_val 16 0 False (drop 2 u)
               else read_digits digit_val 10 0 False u)
      in case r of None \<Rightarrow> NaN | Some m \<Rightarrow> Whole (if neg then - int m else int m))"

definition Date_parse :: "timestamp_text \<Rightarrow> int option" where
  "Date_parse t = (case t of ISOText ms \<Rightarrow> Some ms | Unparseable s \<Rightarrow> None)"

section \<open>The value codec (firestore.js)\<close>

text \<open>
  \<open>encode_value\<close> is the body of the loop of \<open>convertToFirestoreFields\<close> for one
  entry: \<open>Inr None\<close> when no branch assigns the key, \<open>Inl e\<close> when it throws.
  \<open>encode_item\<close> is the callback handed to \<open>value.map\<close>. \<open>encode_indexed\<close> is the
  loop over \<open>Object.entries\<close> of an array, whose keys are the indices.
\<close>

fun encode_value :: "jsval \<Rightarrow> js_error + fsval option"
  and encode_item :: "jsval \<Rightarrow> js_error + fsval option"
  and encode_items :: "jsval list \<Rightarrow> js_error + fsval option list"
  and encode_entries :: "(string \<times> jsval) list \<Rightarrow> js_error + (string \<times> fsval) list"
  and encode_indexed :: "nat \<Rightarrow> jsval list \<Rightarrow> js_error + (string \<times> fsval) list"
where
  "encode_value JNull = Inr (Some NullValue)"
| "encode_value (JString s) = Inr (Some (StringValue s))"
| "encode_value (JNumber n) =
     Inr (Some (case n of Whole i \<Rightarrow> IntegerValue (Number_toString i) | _ \<Rightarrow> DoubleValue n))"
| "encode_value (JBoolean b) = Inr (Some (BooleanValue b))"
| "encode_value (JDate t) =
     (case t of
        None \<Rightarrow> Inl (RangeError ''Invalid time value'')
      | Some ms \<Rightarrow> Inr (Some (TimestampValue (ISOText ms))))"
| "encode_value (JArray xs) =
     (case encode_items xs of Inl e \<Rightarrow> Inl e | Inr ws \<Rightarrow> Inr (Some (ArrayValue ws)))"
| "encode_value (JObject es) =
     (case encode_entries es of Inl e \<Rightarrow> Inl e | Inr fs \<Rightarrow> Inr (Some (MapValue fs)))"
| "encode_value JUndefined = Inr None"
| "encode_value (JOther t) = Inr None"
| "encode_item (JObject es) =
     (case encode_entries es of Inl e \<Rightarrow> Inl e | Inr fs \<Rightarrow> Inr (Some (MapValue fs)))"
| "encode_item (JArray ys) =
     (case encode_indexed 0 ys of Inl e \<Rightarrow> Inl e | Inr fs \<Rightarrow> Inr (Some (MapValue fs)))"
| "encode_item (JDate t) = Inr (Some (MapValue []))"
| "encode_item JNull = encode_value JNull"
| "encode_item JUndefined = encode_value JUndefined"
| "encode_item (JString s) = encode_value (JString s)"
| "encode_item (JNumber n) = encode_value (JNumber n)"
| "encode_item (JBoolean b) = encode_value (JBoolean b)"
| "encode_item (JOther t) = encode_value (JOther t)"
| "encode_items [] = Inr []"
| "encode_items (x # xs) =
     (case encode_item x of
        Inl e \<Rightarrow> Inl e
      | Inr w \<Rightarrow> (case encode_items xs of Inl e \<Rightarrow> Inl e | Inr ws \<Rightarrow> Inr (w # ws)))"
| "encode_entries [] = Inr []"
| "encode_entries ((key, v) # es) =
     (case encode_value v of
        Inl e \<Rightarrow> Inl e
      | Inr r \<Rightarrow>
          (case encode_entries es of
             Inl e \<Rightarrow> Inl e
           | Inr fs \<Rightarrow> Inr (case r of None \<Rightarrow> fs | Some w \<Rightarrow> (key, w) # fs)))"
| "encode_indexed i [] = Inr []"
| "encode_indexed i (y # ys) =
     (case encode_value y of
        Inl e \<Rightarrow> Inl e
      | Inr r \<Rightarrow>
          (case encode_indexed (Suc i) ys of
             Inl e \<Rightarrow> Inl e
           | Inr fs \<Rightarrow> Inr (case r of None \<Rightarrow> fs | Some w \<Rightarrow> (show_nat i, w) # fs)))"

text \<open>
  \<open>decode_value\<close> is the body of the loop of \<open>convertFromFirestoreFields\<close> for one
  entry: \<open>Inr None\<close> when no branch of the chain matches, so the key is not set.
  \<open>decode_item\<close> is the callback handed to \<open>values.map\<close>; reading \<open>item.mapValue\<close>
  of an \<open>undefined\<close> element throws.
\<close>

fun decode_value :: "fsval \<Rightarrow> js_error + jsval option"
  and decode_item :: "fsval option \<Rightarrow> js_error + jsval"
  and decode_items :: "fsval option list \<Rightarrow> js_error + jsval list"
  and convertFromFirestoreFields :: "(string \<times> fsval) list \<Rightarrow> js_error + (string \<times> jsval) list"
where
  "decode_value NullValue = Inr (Some JNull)"
| "decode_value (StringValue s) = Inr (Some (JString s))"
| "decode_value (IntegerValue s) = Inr (Some (JNumber (parseInt s)))"
| "decode_value (DoubleValue n) = Inr (Some (JNumber n))"
| "decode_value (BooleanValue b) = Inr (Some (JBoolean b))"
| "decode_value (TimestampValue t) = Inr (Some (JDate (Date_parse t)))"
| "decode_value (ArrayValue ws) =
     (case decode_items ws of Inl e \<Rightarrow> Inl e | Inr xs \<Rightarrow> Inr (Some (JArray xs)))"
| "decode_value (MapValue fs) =
     (case convertFromFirestoreFields fs of Inl e \<Rightarrow> Inl e | Inr es \<Rightarrow> Inr (Some (JObject es)))"
| "decode_value (UnknownValue tag) = Inr None"
| "decode_item None = Inl (TypeError ''Cannot read properties of undefined (reading mapValue)'')"
| "decode_item (Some (MapValue fs)) =
     (case convertFromFirestoreFields fs of Inl e \<Rightarrow> Inl e | Inr es \<Rightarrow> Inr (JObject es))"
| "decode_item (Some w) =
     (case decode_value w of
        Inl e \<Rightarrow> Inl e
      | Inr None \<Rightarrow> Inr JUndefined
      | Inr (Some v) \<Rightarrow> Inr v)"
| "decode_items [] = Inr []"
| "decode_items (w # ws) =
     (case decode_item w of
        Inl e \<Rightarrow> Inl e
      | Inr x \<Rightarrow> (case decode_items ws of Inl e \<Rightarrow> Inl e | Inr xs \<Rightarrow> Inr (x # xs)))"
| "convertFromFirestoreFields [] = Inr []"
| "convertFromFirestoreFields ((key, w) # fs) =
     (case decode_value w of
        Inl e \<Rightarrow> Inl e
      | Inr r \<Rightarrow>
          (case convertFromFirestoreFields fs of
             Inl e \<Rightarrow> Inl e
           | Inr es \<Rightarrow> Inr (case r of None \<Rightarrow> es | Some v \<Rightarrow> (key, v) # es)))"

section \<open>The schemas (types.js)\<close>

text \<open>
  The schemas are built with the zod library, which is not part of the repository. A
  schema is modelled by the list of issues zod reports for a value, each a path and a
  message, and by the value it returns when there is none (an object schema returns
  the declared keys only). The messages given in types.js are those of the source; the
  other messages are the library's default wording.
\<close>

type_synonym issue = "string list \<times> string"

definition field :: "(string \<times> jsval) list \<Rightarrow> string \<Rightarrow> jsval" where
  "field es key = (case map_of es key of None \<Rightarrow> JUndefined | Some v \<Rightarrow> v)"

definition parsed_type :: "jsval \<Rightarrow> string" where
  "parsed_type v =
     (case v of
        JNull \<Rightarrow> ''null'' | JUndefined \<Rightarrow> ''undefined'' | JString s \<Rightarrow> ''string''
      | JNumber n \<Rightarrow> (if n = NaN then ''nan'' else ''number'') | JBoolean b \<Rightarrow> ''boolean''
      | JDate t \<Rightarrow> ''date'' | JArray xs \<Rightarrow> ''array'' | JObject es \<Rightarrow> ''object''
      | JOther t \<Rightarrow> t)"

definition invalid_type :: "string \<Rightarrow> string list \<Rightarrow> jsval \<Rightarrow> issue list" where
  "invalid_type expected path v =
     [(path, if v = JUndefined then ''Required''
             else ''Expected '' @ expected @ '', received '' @ parsed_type v)]"

text \<open>\<open>z.string().min(1, msg)\<close>\<close>

definition z_string_min1 :: "string \<Rightarrow> string list \<Rightarrow> jsval \<Rightarrow> issue list" where
  "z_string_min1 msg path v =
     (case v of
        JString s \<Rightarrow> (if length s < 1 then [(path, msg)] else [])
      | _ \<Rightarrow> invalid_type ''string'' path v)"

text \<open>\<open>z.enum([...])\<close>\<close>

definition z_enum :: "string list \<Rightarrow> string list \<Rightarrow> jsval \<Rightarrow> issue list" where
  "z_enum options path v =
     (case v of
        JString s \<Rightarrow> (if s \<in> set options then [] else [(path, ''Invalid enum value'')])
      | _ \<Rightarrow> invalid_type ''string'' path v)"

text \<open>Comparison of a number that is not NaN with a whole bound.\<close>

definition num_less :: "jsnum \<Rightarrow> int \<Rightarrow> bool" where
  "num_less x b =
     (case x of Whole n \<Rightarrow> n < b | NonWhole r \<Rightarrow> r < of_int b
      | NegInfinity \<Rightarrow> True | _ \<Rightarrow> False)"

definition num_greater :: "jsnum \<Rightarrow> int \<Rightarrow> bool" where
  "num_greater x b =
     (case x of Whole n \<Rightarrow> b < n | NonWhole r \<Rightarrow> of_int b < r
      | PosInfinity \<Rightarrow> True | _ \<Rightarrow> False)"

definition is_whole :: "jsnum \<Rightarrow> bool" where
  "is_whole x = (case x of Whole n \<Rightarrow> True | _ \<Rightarrow> False)"

text \<open>
  \<open>z.number()\<close> followed by its checks, each a test that fails and its message; NaN
  is not a number for zod, and every failing check reports.
\<close>

definition z_number :: "((jsnum \<Rightarrow> bool) \<times> string) list \<Rightarrow> string list \<Rightarrow> jsval \<Rightarrow> issue list" where
  "z_number checks path v =
     (case v of
        JNumber x \<Rightarrow>
          (if x = NaN then invalid_type ''number'' path v
           else map (\<lambda>(fails, msg). (path, msg)) (filter (\<lambda>(fails, msg). fails x) checks))
      | _ \<Rightarrow> invalid_type ''number'' path v)"

definition not_int :: "(jsnum \<Rightarrow> bool) \<times> string" where
  "not_int = (\<lambda>x. \<not> is_whole x, ''Expected integer, received float'')"

text \<open>
  \<open>z.array(item).min(1, msg)\<close>: the length is checked first, then every element under
  the path extended by its index.
\<close>

definition z_array_min1 ::
  "(string list \<Rightarrow> jsval \<Rightarrow> issue list) \<Rightarrow> string \<Rightarrow> string list \<Rightarrow> jsval \<Rightarrow> issue list" where
  "z_array_min1 item msg path v =
     (case v of
        JArray xs \<Rightarrow>
          (if length xs < 1 then [(path, msg)] else [])
          @ concat (map (\<lambda>(i, x). item (path @ [show_nat i]) x) (enumerate 0 xs))
      | _ \<Rightarrow> invalid_type ''array'' path v)"

definition RequestSchema_issues :: "string list \<Rightarrow> jsval \<Rightarrow> issue list" where
  "RequestSchema_issues path v =
     (case v of
        JObject es \<Rightarrow>
          z_string_min1 ''Destination is required'' (path @ [''destination'']) (field es ''destination'')
          @ z_number [not_int,
                      (\<lambda>x. num_less x 1, ''Duration must be at least 1 day''),
                      (\<lambda>x. num_greater x 30, ''Duration cannot exceed 30 days'')]
              (path @ [''durationDays'']) (field es ''durationDays'')
      | _ \<Rightarrow> invalid_type ''object'' path v)"

definition ActivitySchema_issues :: "string list \<Rightarrow> jsval \<Rightarrow> issue list" where
  "ActivitySchema_issues path v =
     (case v of
        JObject es \<Rightarrow>
          z_enum [''Morning'', ''Afternoon'', ''Evening''] (path @ [''time'']) (field es ''time'')
          @ z_string_min1 ''Description is required'' (path @ [''description'']) (field es ''description'')
          @ z_string_min1 ''Location is required'' (path @ [''location'']) (field es ''location'')
      | _ \<Rightarrow> invalid_type ''object'' path v)"

definition DaySchema_issues :: "string list \<Rightarrow> jsval \<Rightarrow> issue list" where
  "DaySchema_issues path v =
     (case v of
        JObject es \<Rightarrow>
          z_number [not_int, (\<lambda>x. \<not> num_greater x 0, ''Number must be greater than 0'')]
              (path @ [''day'']) (field es ''day'')
          @ z_string_min1 ''Theme is required'' (path @ [''theme'']) (field es ''theme'')
          @ z_array_min1 ActivitySchema_issues ''At least one activity is required''
              (path @ [''activities'']) (field es ''activities'')
      | _ \<Rightarrow> invalid_type ''object'' path v)"

definition ItinerarySchema_issues :: "string list \<Rightarrow> jsval \<Rightarrow> issue list" where
  "ItinerarySchema_issues path v = z_array_min1 DaySchema_issues ''At least one day is required'' path v"

text \<open>The value a schema returns for a value it accepts.\<close>

definition pick :: "string list \<Rightarrow> jsval \<Rightarrow> jsval" where
  "pick keys v = (case v of JObject es \<Rightarrow> JObject (map (\<lambda>key. (key, field es key)) keys) | _ \<Rightarrow> v)"

definition map_array :: "(jsval \<Rightarrow> jsval) \<Rightarrow> jsval \<Rightarrow> jsval" where
  "map_array f v = (case v of JArray xs \<Rightarrow> JArray (map f xs) | _ \<Rightarrow> v)"

definition ActivitySchema_value :: "jsval \<Rightarrow> jsval" where
  "ActivitySchema_value v = pick [''time'', ''description'', ''location''] v"

definition DaySchema_value :: "jsval \<Rightarrow> jsval" where
  "DaySchema_value v =
     (case v of
        JObject es \<Rightarrow>
          JObject [(''day'', field es ''day''), (''theme'', field es ''theme''),
                   (''activities'', map_array ActivitySchema_value (field es ''activities''))]
      | _ \<Rightarrow> v)"

definition RequestSchema_parse :: "jsval \<Rightarrow> js_error + jsval" where
  "RequestSchema_parse v =
     (let issues = RequestSchema_issues [] v
      in if issues = [] then Inr (pick [''destination'', ''durationDays''] v) else Inl (ZodError issues))"

definition ItinerarySchema_parse :: "jsval \<Rightarrow> js_error + jsval" where
  "ItinerarySchema_parse v =
     (let issues = ItinerarySchema_issues [] v
      in if issues = [] then Inr (map_array DaySchema_value v) else Inl (ZodError issues))"

text \<open>\<open>xs.join(sep)\<close>\<close>

fun join :: "string \<Rightarrow> string list \<Rightarrow> string" where
  "join sep [] = []"
| "join sep [x] = x"
| "join sep (x # y # ys) = x @ sep @ join sep (y # ys)"

text \<open>
  \<open>error.message\<close>. zod prints the issues of a ZodError as a JSON array; here each
  issue is printed as its path and its message.
\<close>

definition issue_text :: "issue \<Rightarrow> string" where
  "issue_text i = join ''.'' (fst i) @ '': '' @ snd i"

definition message :: "js_error \<Rightarrow> string" where
  "message e =
     (case e of
        Error m \<Rightarrow> m | RetryableError m \<Rightarrow> m | TypeError m \<Rightarrow> m | RangeError m \<Rightarrow> m
      | SyntaxError m \<Rightarrow> m | ZodError issues \<Rightarrow> join [CHR 0x0A] (map issue_text issues))"

text \<open>\<open>error instanceof RetryableError\<close>\<close>

definition is_RetryableError :: "js_error \<Rightarrow> bool" where
  "is_RetryableError e = (case e of RetryableError m \<Rightarrow> True | _ \<Rightarrow> False)"

section \<open>The world outside the worker\<close>

text \<open>
  What the worker changes or observes: the clock, the delays it slept, the lines it
  wrote with \<open>console.error\<close> (the label of each; \<open>console.log\<close> lines are left out),
  how often the operation under retry was invoked, the requests it sent to the store,
  the documents the store holds by path, and every document version the store wrote,
  oldest first.
\<close>

record store_request =
  req_method :: string
  req_path :: string
  req_query :: string
  req_auth :: string
  req_fields :: "(string \<times> fsval) list option"

record world =
  now :: int
  slept :: "int list"
  console_error :: "string list"
  calls :: nat
  sent :: "store_request list"
  docs :: "(string \<times> (string \<times> fsval) list) list"
  committed :: "(string \<times> (string \<times> fsval) list) list"

record http_response =
  resp_status :: nat
  resp_text :: string
  resp_json :: "jsval option"

record store_response =
  st_status :: nat
  st_text :: string
  st_fields :: "(string \<times> fsval) list option"

text \<open>
  The store answers a request with a status and a body, or cannot be reached at all
  (\<open>fetch\<close> rejects).
\<close>

datatype store_outcome = Reply nat string | Unreachable string

text \<open>
  What the collaborators do: the answer of the generative-text service to the i-th
  call, the answer of the store to the i-th request, the outcome of the token exchange,
  the identifier \<open>generateUUID\<close> draws, and \<open>JSON.parse\<close> (\<open>None\<close> when it throws).
\<close>

record platform =
  llm_reply :: "nat \<Rightarrow> js_error + http_response"
  store_reply :: "nat \<Rightarrow> store_outcome"
  token_reply :: "js_error + string"
  random_uuid :: string
  JSON_parse :: "string \<Rightarrow> jsval option"

definition ok :: "nat \<Rightarrow> bool" where
  "ok st = (200 \<le> st \<and> st \<le> 299)"

definition log_error :: "string \<Rightarrow> world \<Rightarrow> world" where
  "log_error label w = w\<lparr>console_error := console_error w @ [label]\<rparr>"

section \<open>Retry with backoff (utils.js)\<close>

definition sleep :: "int \<Rightarrow> world \<Rightarrow> world" where
  "sleep ms w = w\<lparr>slept := slept w @ [ms], now := now w + max 0 ms\<rparr>"

text \<open>
  The loop of \<open>retryWithBackoff\<close> from \<open>attempt\<close> on. \<open>Inr None\<close> is the
  \<open>undefined\<close> the function returns when the loop ends without a \<open>return\<close>.
\<close>

function retry_loop ::
  "(world \<Rightarrow> (js_error + 'a) \<times> world) \<Rightarrow> int \<Rightarrow> int \<Rightarrow> (js_error \<Rightarrow> bool) \<Rightarrow> nat \<Rightarrow> world
     \<Rightarrow> (js_error + 'a option) \<times> world" where
  "retry_loop fn maxRetries baseDelay retryableError attempt w =
     (if int attempt \<le> maxRetries then
        (case fn w of
           (Inr v, w') \<Rightarrow> (Inr (Some v), w')
         | (Inl error, w') \<Rightarrow>
             if retryableError error \<and> int attempt < maxRetries
             then retry_loop fn maxRetries baseDelay retryableError (Suc attempt)
                    (sleep (baseDelay * 2 ^ attempt) w')
             else (Inl error, w'))
      else (Inr None, w))"
  by pat_completeness auto
termination
  by (relation "measure (\<lambda>(fn, maxRetries, baseDelay, retryableError, attempt, w).
        nat (maxRetries + 1 - int attempt))") auto

declare retry_loop.simps [simp del]

definition retryWithBackoff ::
  "(world \<Rightarrow> (js_error + 'a) \<times> world) \<Rightarrow> int \<Rightarrow> int \<Rightarrow> (js_error \<Rightarrow> bool) \<Rightarrow> world
     \<Rightarrow> (js_error + 'a option) \<times> world" where
  "retryWithBackoff fn maxRetries baseDelay retryableError w =
     retry_loop fn maxRetries baseDelay retryableError 0 w"

text \<open>
  An operation given by the outcome of each of its invocations; it counts them.
\<close>

definition scripted :: "(nat \<Rightarrow> js_error + 'a) \<Rightarrow> world \<Rightarrow> (js_error + 'a) \<times> world" where
  "scripted outcome w = (outcome (calls w), w\<lparr>calls := Suc (calls w)\<rparr>)"

section \<open>The generation client (llm.js)\<close>

definition trim :: "string \<Rightarrow> string" where
  "trim s = rev (dropWhile is_space (rev (dropWhile is_space s)))"

definition indexOf :: "string \<Rightarrow> char \<Rightarrow> int" where
  "indexOf s c = (if c \<in> set s then int (length (takeWhile (\<lambda>x. x \<noteq> c) s)) else - 1)"

definition lastIndexOf :: "string \<Rightarrow> char \<Rightarrow> int" where
  "lastIndexOf s c =
     (if c \<in> set s then int (length s) - 1 - int (length (takeWhile (\<lambda>x. x \<noteq> c) (rev s))) else - 1)"

text \<open>\<open>s.substring(a, b)\<close>: both ends are clamped to the string and swapped when out of order.\<close>

definition substring :: "string \<Rightarrow> int \<Rightarrow> int \<Rightarrow> string" where
  "substring s a b =
     (let n = int (length s);
          a' = min (max a 0) n; b' = min (max b 0) n;
          from = min a' b'; to = max a' b'
      in take (nat (to - from)) (drop (nat from) s))"

text \<open>
  Reading a property of a value that came out of \<open>JSON.parse\<close>: a TypeError on
  \<open>null\<close> and \<open>undefined\<close>, \<open>undefined\<close> when the property is absent.
\<close>

definition get_prop :: "jsval \<Rightarrow> string \<Rightarrow> js_error + jsval" where
  "get_prop v key =
     (case v of
        JNull \<Rightarrow> Inl (TypeError (''Cannot read properties of null (reading '' @ key @ '')''))
      | JUndefined \<Rightarrow> Inl (TypeError (''Cannot read properties of undefined (reading '' @ key @ '')''))
      | JObject es \<Rightarrow> Inr (field es key)
      | _ \<Rightarrow> Inr JUndefined)"

text \<open>\<open>v[0]\<close>\<close>

definition get_first :: "jsval \<Rightarrow> js_error + jsval" where
  "get_first v =
     (case v of
        JArray xs \<Rightarrow> Inr (case xs of [] \<Rightarrow> JUndefined | x # _ \<Rightarrow> x)
      | JString s \<Rightarrow> Inr (case s of [] \<Rightarrow> JUndefined | c # _ \<Rightarrow> JString [c])
      | _ \<Rightarrow> get_prop v ''0'')"

text \<open>\<open>v?.key\<close>\<close>

definition opt_prop :: "jsval \<Rightarrow> string \<Rightarrow> jsval" where
  "opt_prop v key =
     (case v of JObject es \<Rightarrow> field es key | _ \<Rightarrow> JUndefined)"

text \<open>\<open>v?.trim()\<close>: a value that is neither nullish nor a string has no such method.\<close>

definition opt_trim :: "jsval \<Rightarrow> js_error + jsval" where
  "opt_trim v =
     (case v of
        JNull \<Rightarrow> Inr JUndefined
      | JUndefined \<Rightarrow> Inr JUndefined
      | JString s \<Rightarrow> Inr (JString (trim s))
      | _ \<Rightarrow> Inl (TypeError ''trim is not a function''))"

text \<open>\<open>data.choices[0]?.message?.content?.trim()\<close>\<close>

definition response_content :: "jsval \<Rightarrow> js_error + jsval" where
  "response_content data =
     (case get_prop data ''choices'' of
        Inl e \<Rightarrow> Inl e
      | Inr choices \<Rightarrow>
          (case get_first choices of
             Inl e \<Rightarrow> Inl e
           | Inr choice \<Rightarrow> opt_trim (opt_prop (opt_prop choice ''message'') ''content'')))"

text \<open>
  One attempt. The request carries the prompt, which the answer of the service does
  not depend on here.
\<close>

definition generateFn :: "platform \<Rightarrow> world \<Rightarrow> (js_error + jsval) \<times> world" where
  "generateFn P w =
     (let w1 = w\<lparr>calls := Suc (calls w)\<rparr> in
      case llm_reply P (calls w) of
        Inl e \<Rightarrow> (Inl e, w1)
      | Inr response \<Rightarrow>
          if \<not> ok (resp_status response) then
            (if resp_status response = 429 \<or> resp_status response \<ge> 500
             then Inl (RetryableError (''OpenAI service error: '' @ show_nat (resp_status response)))
             else Inl (Error (''OpenAI API error: '' @ show_nat (resp_status response)
                              @ '' - '' @ resp_text response)),
             log_error ''OpenAI API error:'' w1)
          else
            (case resp_json response of
               None \<Rightarrow> (Inl (SyntaxError ''Unexpected token in JSON''), w1)
             | Some data \<Rightarrow>
                 (case response_content data of
                    Inl e \<Rightarrow> (Inl e, w1)
                  | Inr c \<Rightarrow>
                      (case c of
                         JString content \<Rightarrow>
                           if content = [] then
                             (Inl (Error ''Invalid response structure from OpenAI API''), w1)
                           else
                             (let startIndex = indexOf content CHR ''['';
                                  endIndex = lastIndexOf content CHR '']''
                              in if startIndex = - 1 \<or> endIndex = - 1 then
                                   (Inl (RetryableError ''LLM response did not contain a valid JSON array.''),
                                    log_error ''Could not find JSON array in LLM response:'' w1)
                                 else
                                   (case JSON_parse P (substring content startIndex (endIndex + 1)) of
                                      None \<Rightarrow>
                                        (Inl (RetryableError ''LLM returned invalid JSON format even after cleaning.''),
                                         log_error ''Failed to parse the cleaned JSON string:'' w1)
                                    | Some itinerary \<Rightarrow>
                                        (case ItinerarySchema_parse itinerary of
                                           Inr validatedItinerary \<Rightarrow> (Inr validatedItinerary, w1)
                                         | Inl validationError \<Rightarrow>
                                             (Inl (RetryableError
                                                (''Generated itinerary doesn't match required format: ''
                                                 @ message validationError)),
                                              log_error ''Itinerary validation failed:'' w1))))
                       | _ \<Rightarrow> (Inl (Error ''Invalid response structure from OpenAI API''), w1)))))"

definition generateItinerary ::
  "platform \<Rightarrow> jsval \<Rightarrow> jsval \<Rightarrow> string \<Rightarrow> world \<Rightarrow> (js_error + jsval) \<times> world" where
  "generateItinerary P destination durationDays apiKey w =
     (case retryWithBackoff (generateFn P) 3 2000 is_RetryableError w of
        (Inl e, w') \<Rightarrow> (Inl e, w')
      | (Inr r, w') \<Rightarrow> (Inr (case r of None \<Rightarrow> JUndefined | Some v \<Rightarrow> v), w'))"

section \<open>The document store\<close>

text \<open>
  Modelled from the spec: the store itself is a collaborator, and only its contract is
  given. A request answered with a 2xx status has been applied, any other request has
  not. A create writes the document under the collection path and the \<open>documentId\<close>
  parameter. A patch reads its field mask from the \<open>updateMask.fieldPaths\<close> parameters
  of the query string, which are separated by \<open>&\<close>; every masked field takes its value
  from the body, or is removed when the body does not have it; every other field of the
  stored document is left as it is.
\<close>

fun split_on :: "char \<Rightarrow> string \<Rightarrow> string list" where
  "split_on c [] = [[]]"
| "split_on c (x # xs) =
     (if x = c then [] # split_on c xs
      else (case split_on c xs of [] \<Rightarrow> [[x]] | y # ys \<Rightarrow> (x # y) # ys))"

definition mask_paths :: "string \<Rightarrow> string list" where
  "mask_paths query =
     (let name = ''updateMask.fieldPaths=''
      in map (drop (length name))
           (filter (\<lambda>param. take (length name) param = name) (split_on CHR ''&'' query)))"

definition apply_mask ::
  "string list \<Rightarrow> (string \<times> fsval) list \<Rightarrow> (string \<times> fsval) list \<Rightarrow> (string \<times> fsval) list" where
  "apply_mask paths body stored =
     fold (\<lambda>path doc. case map_of body path of
                         Some v \<Rightarrow> AList.update path v doc
                       | None \<Rightarrow> AList.delete path doc) paths stored"

definition stored_fields :: "world \<Rightarrow> string \<Rightarrow> (string \<times> fsval) list" where
  "stored_fields w path = (case map_of (docs w) path of None \<Rightarrow> [] | Some fs \<Rightarrow> fs)"

definition write_doc :: "string \<Rightarrow> (string \<times> fsval) list \<Rightarrow> world \<Rightarrow> world" where
  "write_doc path fs w =
     w\<lparr>docs := AList.update path fs (docs w), committed := committed w @ [(path, fs)]\<rparr>"

definition body_fields :: "store_request \<Rightarrow> (string \<times> fsval) list" where
  "body_fields req = (case req_fields req of None \<Rightarrow> [] | Some fs \<Rightarrow> fs)"

definition store_apply :: "store_request \<Rightarrow> world \<Rightarrow> world" where
  "store_apply req w =
     (if req_method req = ''POST'' then
        write_doc (req_path req @ ''/'' @ drop (length ''documentId='') (req_query req))
          (body_fields req) w
      else if req_method req = ''PATCH'' then
        write_doc (req_path req)
          (apply_mask (mask_paths (req_query req)) (body_fields req) (stored_fields w (req_path req))) w
      else w)"

text \<open>
  \<open>fetch\<close> towards the store: the request is recorded, and the store answers as the
  platform says. A read of a document the store does not hold is answered 404.
\<close>

definition store_fetch :: "platform \<Rightarrow> store_request \<Rightarrow> world \<Rightarrow> (js_error + store_response) \<times> world" where
  "store_fetch P req w =
     (let w1 = w\<lparr>sent := sent w @ [req]\<rparr> in
      case store_reply P (length (sent w)) of
        Unreachable m \<Rightarrow> (Inl (TypeError m), w1)
      | Reply st body \<Rightarrow>
          if \<not> ok st then (Inr \<lparr>st_status = st, st_text = body, st_fields = None\<rparr>, w1)
          else if req_method req = ''GET'' then
            (case map_of (docs w) (req_path req) of
               None \<Rightarrow> (Inr \<lparr>st_status = 404, st_text = ''NOT_FOUND'', st_fields = None\<rparr>, w1)
             | Some fs \<Rightarrow> (Inr \<lparr>st_status = st, st_text = body, st_fields = Some fs\<rparr>, w1))
          else
            (let w2 = store_apply req w1
             in (Inr \<lparr>st_status = st, st_text = body,
                      st_fields = Some (stored_fields w2 (req_path req))\<rparr>, w2)))"

section \<open>The store client (firestore.js)\<close>

record firestore_client =
  projectId :: string
  accessToken :: string
  baseUrl :: string

definition FirestoreClient :: "string \<Rightarrow> string \<Rightarrow> firestore_client" where
  "FirestoreClient project token =
     \<lparr>projectId = project, accessToken = token,
      baseUrl = ''https://firestore.googleapis.com/v1/projects/'' @ project
                @ ''/databases/(default)/documents''\<rparr>"

text \<open>\<open>Object.entries(obj)\<close> and \<open>Object.keys(obj)\<close>\<close>

definition Object_entries :: "jsval \<Rightarrow> js_error + (string \<times> jsval) list" where
  "Object_entries obj =
     (case obj of
        JObject es \<Rightarrow> Inr es
      | JArray xs \<Rightarrow> Inr (map (\<lambda>(i, x). (show_nat i, x)) (enumerate 0 xs))
      | JString s \<Rightarrow> Inr (map (\<lambda>(i, c). (show_nat i, JString [c])) (enumerate 0 s))
      | JNull \<Rightarrow> Inl (TypeError ''Cannot convert undefined or null to object'')
      | JUndefined \<Rightarrow> Inl (TypeError ''Cannot convert undefined or null to object'')
      | _ \<Rightarrow> Inr [])"

definition Object_keys :: "jsval \<Rightarrow> js_error + string list" where
  "Object_keys obj = (case Object_entries obj of Inl e \<Rightarrow> Inl e | Inr es \<Rightarrow> Inr (map fst es))"

definition convertToFirestoreFields :: "jsval \<Rightarrow> js_error + (string \<times> fsval) list" where
  "convertToFirestoreFields obj =
     (case Object_entries obj of Inl e \<Rightarrow> Inl e | Inr es \<Rightarrow> encode_entries es)"

text \<open>
  The body of a request is the JSON text of the encoded fields; it is modelled by the
  fields themselves.
\<close>

definition createDocument ::
  "platform \<Rightarrow> firestore_client \<Rightarrow> string \<Rightarrow> string \<Rightarrow> jsval \<Rightarrow> world \<Rightarrow> (js_error + unit) \<times> world" where
  "createDocument P client collection docId data w =
     (case convertToFirestoreFields data of
        Inl e \<Rightarrow> (Inl e, w)
      | Inr encoded \<Rightarrow>
          (case store_fetch P
                  \<lparr>req_method = ''POST'', req_path = baseUrl client @ ''/'' @ collection,
                   req_query = ''documentId='' @ docId,
                   req_auth = ''Bearer '' @ accessToken client, req_fields = Some encoded\<rparr> w of
             (Inl e, w') \<Rightarrow> (Inl e, w')
           | (Inr response, w') \<Rightarrow>
               if \<not> ok (st_status response) then
                 (Inl (Error (''Firestore create error: '' @ show_nat (st_status response)
                              @ '' - '' @ st_text response)),
                  log_error ''Firestore create error:'' w')
               else (Inr (), w')))"

definition updateMask :: "string list \<Rightarrow> string" where
  "updateMask keys = join ''&'' (map (\<lambda>key. ''updateMask.fieldPaths='' @ key) keys)"

definition updateDocument ::
  "platform \<Rightarrow> firestore_client \<Rightarrow> string \<Rightarrow> string \<Rightarrow> jsval \<Rightarrow> world \<Rightarrow> (js_error + unit) \<times> world" where
  "updateDocument P client collection docId data w =
     (case Object_keys data of
        Inl e \<Rightarrow> (Inl e, w)
      | Inr keys \<Rightarrow>
          (case convertToFirestoreFields data of
             Inl e \<Rightarrow> (Inl e, w)
           | Inr encoded \<Rightarrow>
               (case store_fetch P
                       \<lparr>req_method = ''PATCH'',
                        req_path = baseUrl client @ ''/'' @ collection @ ''/'' @ docId,
                        req_query = updateMask keys,
                        req_auth = ''Bearer '' @ accessToken client, req_fields = Some encoded\<rparr> w of
                  (Inl e, w') \<Rightarrow> (Inl e, w')
                | (Inr response, w') \<Rightarrow>
                    if \<not> ok (st_status response) then
                      (Inl (Error (''Firestore update error: '' @ show_nat (st_status response)
                                   @ '' - '' @ st_text response)),
                       log_error ''Firestore update error:'' w')
                    else (Inr (), w'))))"

text \<open>\<open>getDocument\<close> returns the decoded fields, or \<open>null\<close> on a 404.\<close>

definition getDocument ::
  "platform \<Rightarrow> firestore_client \<Rightarrow> string \<Rightarrow> string \<Rightarrow> world \<Rightarrow> (js_error + jsval) \<times> world" where
  "getDocument P client collection docId w =
     (case store_fetch P
             \<lparr>req_method = ''GET'',
              req_path = baseUrl client @ ''/'' @ collection @ ''/'' @ docId,
              req_query = [], req_auth = ''Bearer '' @ accessToken client, req_fields = None\<rparr> w of
        (Inl e, w') \<Rightarrow> (Inl e, w')
      | (Inr response, w') \<Rightarrow>
          if st_status response = 404 then (Inr JNull, w')
          else if \<not> ok (st_status response) then
            (Inl (Error (''Firestore get error: '' @ show_nat (st_status response)
                         @ '' - '' @ st_text response)), w')
          else
            (case st_fields response of
               None \<Rightarrow> (Inl (TypeError ''Cannot convert undefined or null to object''), w')
             | Some fs \<Rightarrow>
                 (case convertFromFirestoreFields fs of
                    Inl e \<Rightarrow> (Inl e, w')
                  | Inr es \<Rightarrow> (Inr (JObject es), w'))))"

text \<open>\<open>decode(encode(v))\<close>, an exception of either step passed on.\<close>

definition roundtrip :: "jsval \<Rightarrow> js_error + jsval" where
  "roundtrip obj =
     (case convertToFirestoreFields obj of
        Inl e \<Rightarrow> Inl e
      | Inr fs \<Rightarrow> (case convertFromFirestoreFields fs of Inl e \<Rightarrow> Inl e | Inr es \<Rightarrow> Inr (JObject es)))"

section \<open>The worker (request handler and background task)\<close>

record request =
  http_method :: string
  http_body :: "jsval option"

record reply =
  reply_status :: nat
  reply_body :: jsval

text \<open>The environment variables; an unset variable and an empty one are both \<open>[]\<close>.\<close>

record environment =
  FIREBASE_SERVICE_ACCOUNT :: string
  FIREBASE_PROJECT_ID :: string
  OPENAI_API_KEY :: string

record job =
  job_client :: firestore_client
  job_id :: string
  job_destination :: jsval
  job_durationDays :: jsval

definition validateEnvironment :: "environment \<Rightarrow> js_error + unit" where
  "validateEnvironment env =
     (let missing = map fst (filter (\<lambda>(key, v). v = [])
            [(''FIREBASE_SERVICE_ACCOUNT'', FIREBASE_SERVICE_ACCOUNT env),
             (''FIREBASE_PROJECT_ID'', FIREBASE_PROJECT_ID env),
             (''OPENAI_API_KEY'', OPENAI_API_KEY env)])
      in if length missing > 0
         then Inl (Error (''Missing required environment variables: '' @ join '', '' missing))
         else Inr ())"

definition createErrorResponse :: "string \<Rightarrow> nat \<Rightarrow> string \<Rightarrow> reply" where
  "createErrorResponse msg st details =
     \<lparr>reply_status = st,
      reply_body = JObject ((''error'', JString msg) #
                            (if details = [] then [] else [(''details'', JString details)]))\<rparr>"

definition createSuccessResponse :: "jsval \<Rightarrow> nat \<Rightarrow> reply" where
  "createSuccessResponse data st = \<lparr>reply_status = st, reply_body = data\<rparr>"

text \<open>
  \<open>getAccessToken\<close>: the key must be present; parsing it, signing the assertion and
  exchanging it for a token are the platform's answer.
\<close>

definition getAccessToken :: "platform \<Rightarrow> string \<Rightarrow> world \<Rightarrow> (js_error + string) \<times> world" where
  "getAccessToken P serviceAccountKey w =
     (case (if serviceAccountKey = [] then Inl (Error ''Service account key is missing'')
            else token_reply P) of
        Inl e \<Rightarrow> (Inl e, log_error ''Error in getAccessToken:'' w)
      | Inr token \<Rightarrow> (Inr token, w))"

definition issues_of :: "js_error \<Rightarrow> issue list" where
  "issues_of e = (case e of ZodError issues \<Rightarrow> issues | _ \<Rightarrow> [])"

text \<open>
  The \<open>try\<close> block of \<open>fetch\<close>: \<open>Inl\<close> is an exception that reaches its \<open>catch\<close>,
  \<open>Inr\<close> the response it returns and the background task it hands to \<open>ctx.waitUntil\<close>.
\<close>

definition handle_post ::
  "platform \<Rightarrow> request \<Rightarrow> environment \<Rightarrow> world \<Rightarrow> (js_error + reply \<times> job option) \<times> world" where
  "handle_post P req env w =
     (case validateEnvironment env of
        Inl e \<Rightarrow> (Inl e, w)
      | Inr u \<Rightarrow>
          (case http_body req of
             None \<Rightarrow> (Inr (createErrorResponse ''Invalid JSON in request body'' 400 [], None), w)
           | Some requestBody \<Rightarrow>
               (case RequestSchema_parse requestBody of
                  Inl validationError \<Rightarrow>
                    (Inr (createErrorResponse
                            (''Invalid request: '' @ join '', '' (map issue_text (issues_of validationError)))
                            400 [], None), w)
                | Inr validatedRequest \<Rightarrow>
                    (let destination = opt_prop validatedRequest ''destination'';
                         durationDays = opt_prop validatedRequest ''durationDays'';
                         jobId = random_uuid P
                     in case getAccessToken P (FIREBASE_SERVICE_ACCOUNT env) w of
                          (Inl e, w1) \<Rightarrow> (Inl e, w1)
                        | (Inr token, w1) \<Rightarrow>
                            (let firestore = FirestoreClient (FIREBASE_PROJECT_ID env) token
                             in case createDocument P firestore ''itineraries'' jobId
                                       (JObject [(''status'', JString ''processing''),
                                                 (''destination'', destination),
                                                 (''durationDays'', durationDays),
                                                 (''createdAt'', JDate (Some (now w1))),
                                                 (''completedAt'', JNull),
                                                 (''itinerary'', JNull),
                                                 (''error'', JNull)]) w1 of
                                  (Inl e, w2) \<Rightarrow> (Inl e, w2)
                                | (Inr u, w2) \<Rightarrow>
                                    (Inr (createSuccessResponse (JObject [(''jobId'', JString jobId)]) 202,
                                          Some \<lparr>job_client = firestore, job_id = jobId,
                                                 job_destination = destination,
                                                 job_durationDays = durationDays\<rparr>), w2))))))"

definition fetch :: "platform \<Rightarrow> request \<Rightarrow> environment \<Rightarrow> world \<Rightarrow> reply \<times> job option \<times> world" where
  "fetch P req env w =
     (if http_method req = ''OPTIONS'' then (\<lparr>reply_status = 200, reply_body = JNull\<rparr>, None, w)
      else if http_method req \<noteq> ''POST'' then
        (createErrorResponse ''Method not allowed. Use POST.'' 405 [], None, w)
      else
        (case handle_post P req env w of
           (Inr (response, task), w') \<Rightarrow> (response, task, w')
         | (Inl error, w') \<Rightarrow>
             (createErrorResponse ''Internal server error occurred'' 500 (message error), None,
              log_error ''Error stack:'' (log_error ''Main handler error:'' w'))))"

text \<open>The \<open>try\<close> block of \<open>processItinerary\<close>.\<close>

definition process_try :: "platform \<Rightarrow> job \<Rightarrow> environment \<Rightarrow> world \<Rightarrow> (js_error + unit) \<times> world" where
  "process_try P j env w =
     (case generateItinerary P (job_destination j) (job_durationDays j) (OPENAI_API_KEY env) w of
        (Inl e, w1) \<Rightarrow> (Inl e, w1)
      | (Inr itinerary, w1) \<Rightarrow>
          updateDocument P (job_client j) ''itineraries'' (job_id j)
            (JObject [(''status'', JString ''completed''),
                      (''destination'', job_destination j),
                      (''durationDays'', job_durationDays j),
                      (''completedAt'', JDate (Some (now w1))),
                      (''itinerary'', itinerary),
                      (''error'', JNull)]) w1)"

text \<open>
  \<open>processItinerary\<close>: the result is \<open>Inl e\<close> if the exception \<open>e\<close> leaves the function.
\<close>

definition processItinerary :: "platform \<Rightarrow> job \<Rightarrow> environment \<Rightarrow> world \<Rightarrow> (js_error + unit) \<times> world" where
  "processItinerary P j env w =
     (case process_try P j env w of
        (Inr u, w') \<Rightarrow> (Inr (), w')
      | (Inl error, w') \<Rightarrow>
          (let w1 = log_error (''Background processing error for job '' @ job_id j @ '':'') w'
           in case updateDocument P (job_client j) ''itineraries'' (job_id j)
                     (JObject [(''status'', JString ''failed''),
                               (''completedAt'', JDate (Some (now w1))),
                               (''error'', JString (message error))]) w1 of
                (Inr u, w2) \<Rightarrow> (Inr (), w2)
              | (Inl updateError, w2) \<Rightarrow> (Inr (), log_error (''Failed to update error status for job '' @ job_id j @ '':'') w2)))"

text \<open>A request served to the end: the response, and the world once the background task is done.\<close>

definition serve :: "platform \<Rightarrow> request \<Rightarrow> environment \<Rightarrow> world \<Rightarrow> reply \<times> world" where
  "serve P req env w =
     (case fetch P req env w of
        (response, None, w') \<Rightarrow> (response, w')
      | (response, Some j, w') \<Rightarrow> (response, snd (processItinerary P j env w')))"

section \<open>Conditions on values\<close>







section \<open>What the schemas accept, in words\<close>

text \<open>
  The conditions of types.js read off as predicates, to be compared with the issue
  lists above: a text with at least one character; an Activity; a Day; an itinerary;
  a request.
\<close>

definition nonempty_text :: "jsval \<Rightarrow> bool" where
  "nonempty_text v = (case v of JString s \<Rightarrow> s \<noteq> [] | _ \<Rightarrow> False)"

definition time_slot :: "jsval \<Rightarrow> bool" where
  "time_slot v = (v = JString ''Morning'' \<or> v = JString ''Afternoon'' \<or> v = JString ''Evening'')"

definition valid_activity :: "jsval \<Rightarrow> bool" where
  "valid_activity v =
     (case v of
        JObject es \<Rightarrow>
          time_slot (field es ''time'') \<and> nonempty_text (field es ''description'')
          \<and> nonempty_text (field es ''location'')
      | _ \<Rightarrow> False)"

definition positive_whole :: "jsval \<Rightarrow> bool" where
  "positive_whole v = (case v of JNumber (Whole n) \<Rightarrow> 0 < n | _ \<Rightarrow> False)"

definition nonempty_array_of :: "(jsval \<Rightarrow> bool) \<Rightarrow> jsval \<Rightarrow> bool" where
  "nonempty_array_of good v = (case v of JArray xs \<Rightarrow> xs \<noteq> [] \<and> list_all good xs | _ \<Rightarrow> False)"

definition valid_day :: "jsval \<Rightarrow> bool" where
  "valid_day v =
     (case v of
        JObject es \<Rightarrow>
          positive_whole (field es ''day'') \<and> nonempty_text (field es ''theme'')
          \<and> nonempty_array_of valid_activity (field es ''activities'')
      | _ \<Rightarrow> False)"

definition valid_itinerary :: "jsval \<Rightarrow> bool" where
  "valid_itinerary v = nonempty_array_of valid_day v"

definition whole_between :: "int \<Rightarrow> int \<Rightarrow> jsval \<Rightarrow> bool" where
  "whole_between lo hi v = (case v of JNumber (Whole n) \<Rightarrow> lo \<le> n \<and> n \<le> hi | _ \<Rightarrow> False)"

definition valid_request :: "jsval \<Rightarrow> bool" where
  "valid_request v =
     (case v of
        JObject es \<Rightarrow>
          nonempty_text (field es ''destination'') \<and> whole_between 1 30 (field es ''durationDays'')
      | _ \<Rightarrow> False)"

text \<open>The time slots of the activities of a Day, in order.\<close>

definition slots_of :: "jsval \<Rightarrow> jsval list" where
  "slots_of d =
     (case d of
        JObject es \<Rightarrow>
          (case field es ''activities'' of
             JArray acts \<Rightarrow> map (\<lambda>a. case a of JObject fs \<Rightarrow> field fs ''time'' | _ \<Rightarrow> JUndefined) acts
           | _ \<Rightarrow> [])
      | _ \<Rightarrow> [])"












section \<open>Example inputs\<close>

text \<open>An operation that is busy twice and then answers 7.\<close>

definition flaky :: "nat \<Rightarrow> js_error + nat" where
  "flaky i = (if i < 2 then Inl (RetryableError ''busy'') else Inr 7)"

definition world0 :: world where
  "world0 = \<lparr>now = 0, slept = [], console_error = [], calls = 0, sent = [], docs = [], committed = []\<rparr>"



text \<open>A Day whose activities have the given time slots, and a platform where everything works.\<close>

definition activity_at :: "string \<Rightarrow> jsval" where
  "activity_at slot =
     JObject [(''time'', JString slot), (''description'', JString ''Walk the torii path''),
              (''location'', JString ''Fushimi Inari'')]"

definition day_with :: "string list \<Rightarrow> jsval" where
  "day_with slots =
     JObject [(''day'', JNumber (Whole 1)), (''theme'', JString ''Shrines''),
              (''activities'', JArray (map activity_at slots))]"











section \<open>Properties of the value codec\<close>

text \<open>
  C2 (round trip). The claim is that decoding the encoding of a value gives the value
  back for lists of timestamps too. The callback that encodes the elements of an array
  sends every element whose \<open>typeof\<close> is \<open>object\<close> to the map branch, a Date and a
  nested array included, while the loop over the entries has a branch of its own for
  each. A list holding one timestamp comes back as a list holding one empty object, and
  a list holding a list comes back as a list holding an object keyed by the indices.
\<close>

theorem roundtrip_list_of_timestamps_lost:
  "roundtrip (JObject [(''visits'', JArray [JDate (Some 0)])])
     = Inr (JObject [(''visits'', JArray [JObject []])])
   \<and> roundtrip (JObject [(''grid'', JArray [JArray [JNumber (Whole 1)]])])
     = Inr (JObject [(''grid'', JArray [JObject [(''0'', JNumber (Whole 1))]])])
   \<and> roundtrip (JObject [(''when'', JDate (Some 0))]) = Inr (JObject [(''when'', JDate (Some 0))])"
  by (simp add: roundtrip_def convertToFirestoreFields_def Object_entries_def Date_parse_def show_nat.simps
      digit_char_def Number_toString_def parseInt_def is_space_def digit_val_def)

section \<open>Properties of the retry policy\<close>

lemma retry_loop_fails_then_returns:
  fixes outcome :: "nat \<Rightarrow> js_error + 'a"
  assumes "\<forall>i<k. \<exists>e. outcome (calls w + i) = Inl e \<and> retryable e"
    and "outcome (calls w + k) = Inr v"
    and "int (a + k) \<le> m"
  shows "retry_loop (scripted outcome) m b retryable a w =
           (Inr (Some v),
            w\<lparr>calls := calls w + k + 1,
              slept := slept w @ map (\<lambda>i. b * 2 ^ i) [a..<a + k],
              now := now w + sum_list (map (\<lambda>i. max 0 (b * 2 ^ i)) [a..<a + k])\<rparr>)"
  using assms
proof (induction k arbitrary: a w)
  case 0
  then show ?case
    by (simp add: retry_loop.simps [of _ _ _ _ a w] scripted_def)
next
  case (Suc k)
  from Suc.prems(1) obtain e where e: "outcome (calls w) = Inl e" "retryable e"
    by force
  let ?w1 = "sleep (b * 2 ^ a) (w\<lparr>calls := Suc (calls w)\<rparr>)"
  have c1: "calls ?w1 = Suc (calls w)" by (simp add: sleep_def)
  have p1: "\<forall>i<k. \<exists>e. outcome (calls ?w1 + i) = Inl e \<and> retryable e"
  proof (intro allI impI)
    fix i assume "i < k"
    then have "Suc i < Suc k" by simp
    with Suc.prems(1) have "\<exists>e. outcome (calls w + Suc i) = Inl e \<and> retryable e" by blast
    then show "\<exists>e. outcome (calls ?w1 + i) = Inl e \<and> retryable e" by (simp add: c1)
  qed
  have p2: "outcome (calls ?w1 + k) = Inr v" using Suc.prems(2) by (simp add: c1)
  have p3: "int (Suc a + k) \<le> m" using Suc.prems(3) by simp
  have step: "retry_loop (scripted outcome) m b retryable a w =
                retry_loop (scripted outcome) m b retryable (Suc a) ?w1"
    using e Suc.prems(3)
    by (subst retry_loop.simps) (simp add: scripted_def)
  have up: "[a..<a + Suc k] = a # [Suc a..<Suc a + k]"
    by (simp add: upt_conv_Cons)
  show ?case
    unfolding step Suc.IH [OF p1 p2 p3] up
    by (simp add: sleep_def)
qed

lemma retry_loop_fatal:
  assumes "outcome (calls w) = Inl e" and "\<not> retryable e" and "int a \<le> m"
  shows "retry_loop (scripted outcome) m b retryable a w = (Inl e, w\<lparr>calls := Suc (calls w)\<rparr>)"
  using assms by (subst retry_loop.simps) (simp add: scripted_def)

lemma retry_loop_exhausted:
  fixes outcome :: "nat \<Rightarrow> js_error + 'a"
  assumes "\<forall>i\<le>k. \<exists>e. outcome (calls w + i) = Inl e \<and> retryable e"
    and "int (a + k) = m"
    and "outcome (calls w + k) = Inl err"
  shows "retry_loop (scripted outcome) m b retryable a w =
           (Inl err,
            w\<lparr>calls := calls w + k + 1,
              slept := slept w @ map (\<lambda>i. b * 2 ^ i) [a..<a + k],
              now := now w + sum_list (map (\<lambda>i. max 0 (b * 2 ^ i)) [a..<a + k])\<rparr>)"
  using assms
proof (induction k arbitrary: a w)
  case 0
  then show ?case
    by (subst retry_loop.simps) (simp add: scripted_def)
next
  case (Suc k)
  from Suc.prems(1) obtain e where e: "outcome (calls w) = Inl e" "retryable e"
    by force
  let ?w1 = "sleep (b * 2 ^ a) (w\<lparr>calls := Suc (calls w)\<rparr>)"
  have c1: "calls ?w1 = Suc (calls w)" by (simp add: sleep_def)
  have p1: "\<forall>i\<le>k. \<exists>e. outcome (calls ?w1 + i) = Inl e \<and> retryable e"
  proof (intro allI impI)
    fix i assume "i \<le> k"
    then have "Suc i \<le> Suc k" by simp
    with Suc.prems(1) have "\<exists>e. outcome (calls w + Suc i) = Inl e \<and> retryable e" by blast
    then show "\<exists>e. outcome (calls ?w1 + i) = Inl e \<and> retryable e" by (simp add: c1)
  qed
  have p2: "int (Suc a + k) = m" using Suc.prems(2) by simp
  have p3: "outcome (calls ?w1 + k) = Inl err" using Suc.prems(3) by (simp add: c1)
  have step: "retry_loop (scripted outcome) m b retryable a w =
                retry_loop (scripted outcome) m b retryable (Suc a) ?w1"
    using e Suc.prems(2)
    by (subst retry_loop.simps) (auto simp add: scripted_def)
  have up: "[a..<a + Suc k] = a # [Suc a..<Suc a + k]"
    by (simp add: upt_conv_Cons)
  show ?case
    unfolding step Suc.IH [OF p1 p2 p3] up
    by (simp add: sleep_def)
qed

lemma sum_backoff: "sum_list (map (\<lambda>i. b * 2 ^ i) [0..<k]) = (b::int) * (\<Sum>i<k. 2 ^ i)"
  by (induction k) (simp_all add: algebra_simps)

text \<open>
  C3 (retry arithmetic). An operation that fails with a retryable error on each of its
  first \<open>k\<close> invocations, \<open>k\<close> below the retry budget, and then succeeds is invoked
  \<open>k + 1\<close> times, the delays slept are \<open>baseDelay * 2^0, ..., baseDelay * 2^(k-1)\<close>, their
  sum is \<open>baseDelay * (2^0 + ... + 2^(k-1))\<close>, and the result is returned. An operation
  whose first invocation fails with an error that is not retryable is invoked once, the
  error is thrown on and nothing is slept. An operation that always fails with a
  retryable error is invoked \<open>maxRetries + 1\<close> times and the error of its last
  invocation is thrown on. The retry budget is a count, so it is not negative.
\<close>

theorem retryWithBackoff_arithmetic:
  fixes outcome :: "nat \<Rightarrow> js_error + 'a"
  shows
  "((\<forall>i<k. \<exists>e. outcome (calls w + i) = Inl e \<and> retryable e) \<and> outcome (calls w + k) = Inr v
      \<and> int k < maxRetries
     \<longrightarrow> (\<exists>w'. retryWithBackoff (scripted outcome) maxRetries baseDelay retryable w = (Inr (Some v), w')
            \<and> calls w' = calls w + (k + 1)
            \<and> slept w' = slept w @ map (\<lambda>i. baseDelay * 2 ^ i) [0..<k]
            \<and> sum_list (drop (length (slept w)) (slept w')) = baseDelay * (\<Sum>i<k. 2 ^ i)))
   \<and> (outcome (calls w) = Inl e \<and> \<not> retryable e \<and> 0 \<le> maxRetries
     \<longrightarrow> (\<exists>w'. retryWithBackoff (scripted outcome) maxRetries baseDelay retryable w = (Inl e, w')
            \<and> calls w' = calls w + 1 \<and> slept w' = slept w))
   \<and> ((\<forall>i. \<exists>e. outcome i = Inl e \<and> retryable e) \<and> 0 \<le> maxRetries
     \<longrightarrow> (\<exists>w' err. retryWithBackoff (scripted outcome) maxRetries baseDelay retryable w = (Inl err, w')
            \<and> outcome (calls w + nat maxRetries) = Inl err
            \<and> calls w' = calls w + (nat maxRetries + 1)))"
proof (intro conjI impI)
  assume h: "(\<forall>i<k. \<exists>e. outcome (calls w + i) = Inl e \<and> retryable e) \<and> outcome (calls w + k) = Inr v
      \<and> int k < maxRetries"
  then have "int (0 + k) \<le> maxRetries" by simp
  from retry_loop_fails_then_returns [OF _ _ this, of outcome w retryable v baseDelay] h
  show "\<exists>w'. retryWithBackoff (scripted outcome) maxRetries baseDelay retryable w = (Inr (Some v), w')
            \<and> calls w' = calls w + (k + 1)
            \<and> slept w' = slept w @ map (\<lambda>i. baseDelay * 2 ^ i) [0..<k]
            \<and> sum_list (drop (length (slept w)) (slept w')) = baseDelay * (\<Sum>i<k. 2 ^ i)"
    by (simp add: retryWithBackoff_def sum_backoff)
next
  assume h: "outcome (calls w) = Inl e \<and> \<not> retryable e \<and> 0 \<le> maxRetries"
  then have "int 0 \<le> maxRetries" by simp
  from retry_loop_fatal [OF _ _ this, of outcome w e retryable baseDelay] h
  show "\<exists>w'. retryWithBackoff (scripted outcome) maxRetries baseDelay retryable w = (Inl e, w')
            \<and> calls w' = calls w + 1 \<and> slept w' = slept w"
    by (simp add: retryWithBackoff_def)
next
  assume h: "(\<forall>i. \<exists>e. outcome i = Inl e \<and> retryable e) \<and> 0 \<le> maxRetries"
  then obtain err where err: "outcome (calls w + nat maxRetries) = Inl err" by blast
  from h have a: "\<forall>i\<le>nat maxRetries. \<exists>e. outcome (calls w + i) = Inl e \<and> retryable e" by blast
  from h have b: "int (0 + nat maxRetries) = maxRetries" by simp
  from retry_loop_exhausted [OF a b err, of baseDelay] err
  show "\<exists>w' err. retryWithBackoff (scripted outcome) maxRetries baseDelay retryable w = (Inl err, w')
            \<and> outcome (calls w + nat maxRetries) = Inl err
            \<and> calls w' = calls w + (nat maxRetries + 1)"
    by (simp add: retryWithBackoff_def)
qed

theorem retryWithBackoff_arithmetic_witness:
  "(\<exists>w'. retryWithBackoff (scripted flaky) 3 2000 is_RetryableError world0 = (Inr (Some 7), w')
        \<and> calls w' = 3 \<and> slept w' = [2000, 4000] \<and> sum_list (slept w') = 6000)
   \<and> (\<exists>w'. retryWithBackoff (scripted (\<lambda>i. Inl (Error ''denied'') :: js_error + nat)) 3 2000 is_RetryableError world0
              = (Inl (Error ''denied''), w') \<and> calls w' = 1 \<and> slept w' = [])
   \<and> (\<exists>w'. retryWithBackoff (scripted (\<lambda>i. Inl (RetryableError (show_nat i)) :: js_error + nat)) 3 2000 is_RetryableError world0
              = (Inl (RetryableError ''3''), w') \<and> calls w' = 4)"
proof -
  have f: "\<forall>i<2. \<exists>e. flaky (calls world0 + i) = Inl e \<and> is_RetryableError e"
    by (simp add: flaky_def is_RetryableError_def world0_def)
  have g: "\<forall>i. \<exists>e. (Inl (RetryableError (show_nat i)) :: js_error + nat) = Inl e \<and> is_RetryableError e"
    by (simp add: is_RetryableError_def)
  have u: "[0..<2] = [0, Suc 0]" by (simp add: upt_conv_Cons)
  have s: "(\<Sum>i<(2::nat). (2::int) ^ i) = 3" by (simp add: lessThan_nat_numeral lessThan_Suc)
  from retryWithBackoff_arithmetic [where k = 2 and outcome = flaky and w = world0
           and retryable = is_RetryableError and v = 7 and maxRetries = 3 and baseDelay = 2000]
       retryWithBackoff_arithmetic [where outcome = "\<lambda>i. Inl (Error ''denied'') :: js_error + nat"
           and w = world0 and retryable = is_RetryableError and e = "Error ''denied''"
           and maxRetries = 3 and baseDelay = 2000]
       retryWithBackoff_arithmetic [where outcome = "\<lambda>i. Inl (RetryableError (show_nat i)) :: js_error + nat"
           and w = world0 and retryable = is_RetryableError and maxRetries = 3 and baseDelay = 2000]
       f g
  show ?thesis
    by (simp add: flaky_def world0_def is_RetryableError_def u s show_nat.simps digit_char_def)
qed

section \<open>Properties of the schemas\<close>

lemma z_string_min1_accepts: "z_string_min1 msg path v = [] \<longleftrightarrow> nonempty_text v"
  by (cases v) (auto simp: z_string_min1_def nonempty_text_def invalid_type_def)

lemma z_enum_slots_accepts:
  "z_enum [''Morning'', ''Afternoon'', ''Evening''] path v = [] \<longleftrightarrow> time_slot v"
  by (cases v) (auto simp: z_enum_def time_slot_def invalid_type_def)

lemma z_number_day_accepts:
  "z_number [not_int, (\<lambda>x. \<not> num_greater x 0, msg)] path v = [] \<longleftrightarrow> positive_whole v"
proof (cases v)
  case (JNumber x)
  then show ?thesis
    by (cases x) (auto simp: z_number_def positive_whole_def invalid_type_def not_int_def
        is_whole_def num_greater_def)
qed (auto simp: z_number_def positive_whole_def invalid_type_def)

lemma z_number_duration_accepts:
  "z_number [not_int, (\<lambda>x. num_less x 1, m1), (\<lambda>x. num_greater x 30, m2)] path v = []
     \<longleftrightarrow> whole_between 1 30 v"
proof (cases v)
  case (JNumber x)
  then show ?thesis
    by (cases x) (auto simp: z_number_def whole_between_def invalid_type_def not_int_def
        is_whole_def num_greater_def num_less_def)
qed (auto simp: z_number_def whole_between_def invalid_type_def)

lemma enumerate_items_accept:
  assumes "\<And>p x. item p x = [] \<longleftrightarrow> good x"
  shows "concat (map (\<lambda>(i, x). item (path @ [show_nat i]) x) (enumerate n xs)) = [] \<longleftrightarrow> list_all good xs"
  by (induction xs arbitrary: n) (auto simp: assms)

lemma z_array_min1_accepts:
  assumes "\<And>p x. item p x = [] \<longleftrightarrow> good x"
  shows "z_array_min1 item msg path v = [] \<longleftrightarrow> nonempty_array_of good v"
  by (cases v)
     (auto simp: z_array_min1_def nonempty_array_of_def invalid_type_def
        enumerate_items_accept [of item good, OF assms] simp del: concat_eq_Nil_conv)

lemma ActivitySchema_accepts: "ActivitySchema_issues path v = [] \<longleftrightarrow> valid_activity v"
  by (cases v)
     (auto simp: ActivitySchema_issues_def valid_activity_def invalid_type_def
        z_string_min1_accepts z_enum_slots_accepts)

lemma DaySchema_accepts: "DaySchema_issues path v = [] \<longleftrightarrow> valid_day v"
  by (cases v)
     (auto simp: DaySchema_issues_def valid_day_def invalid_type_def z_string_min1_accepts
        z_number_day_accepts z_array_min1_accepts [of ActivitySchema_issues valid_activity, OF ActivitySchema_accepts])

lemma ItinerarySchema_accepts: "ItinerarySchema_issues path v = [] \<longleftrightarrow> valid_itinerary v"
  by (simp add: ItinerarySchema_issues_def valid_itinerary_def
      z_array_min1_accepts [of DaySchema_issues valid_day, OF DaySchema_accepts])

lemma RequestSchema_accepts: "RequestSchema_issues path v = [] \<longleftrightarrow> valid_request v"
  by (cases v)
     (auto simp: RequestSchema_issues_def valid_request_def invalid_type_def z_string_min1_accepts
        z_number_duration_accepts)


lemma ItinerarySchema_parse_iff: "(\<exists>out. ItinerarySchema_parse v = Inr out) \<longleftrightarrow> valid_itinerary v"
  by (simp add: ItinerarySchema_parse_def Let_def ItinerarySchema_accepts)

text \<open>
  C1, as the claim states it, fails: the Day schema asks for at least one activity
  (\<open>.min(1, "At least one activity is required")\<close>) and the Activity schema for a time among
  the three slots; nothing counts the activities or compares their slots. A Day with the
  single slot Morning is accepted, and so is a Day with Morning twice.
\<close>

theorem day_with_one_slot_accepted:
  "ItinerarySchema_parse (JArray [day_with [''Morning'']]) = Inr (JArray [day_with [''Morning'']])
   \<and> slots_of (day_with [''Morning'']) = [JString ''Morning'']
   \<and> ItinerarySchema_parse (JArray [day_with [''Morning'', ''Morning'', ''Evening'']])
       = Inr (JArray [day_with [''Morning'', ''Morning'', ''Evening'']])
   \<and> slots_of (day_with [''Morning'', ''Morning'', ''Evening''])
       = [JString ''Morning'', JString ''Morning'', JString ''Evening'']"
  by (simp add: ItinerarySchema_parse_def ItinerarySchema_issues_def z_array_min1_def
      DaySchema_issues_def ActivitySchema_issues_def z_number_def z_string_min1_def z_enum_def
      not_int_def is_whole_def num_greater_def field_def day_with_def activity_at_def
      map_array_def DaySchema_value_def ActivitySchema_value_def pick_def slots_of_def
      enumerate_eq_zip upt_conv_Cons)

text \<open>
  C1, amended. Validation accepts a parsed structure exactly when it is a non-empty
  array of Days, each an object with a positive whole \<open>day\<close>, a non-empty \<open>theme\<close> and a
  non-empty array \<open>activities\<close> of objects with \<open>time\<close> one of Morning, Afternoon and
  Evening and non-empty \<open>description\<close> and \<open>location\<close>.
\<close>

theorem ItinerarySchema_accepts_valid_itineraries:
  "(\<exists>out. ItinerarySchema_parse v = Inr out) \<longleftrightarrow> valid_itinerary v"
  by (rule ItinerarySchema_parse_iff)

theorem ItinerarySchema_accepts_valid_itineraries_witness:
  "valid_itinerary (JArray [day_with [''Morning'', ''Afternoon'', ''Evening'']])
   \<and> valid_itinerary (JArray [day_with [''Morning'']])
   \<and> \<not> (\<exists>out. ItinerarySchema_parse (JArray [day_with []]) = Inr out)
   \<and> \<not> (\<exists>out. ItinerarySchema_parse (JArray [day_with [''Noon'']]) = Inr out)"
  using ItinerarySchema_accepts_valid_itineraries [of "JArray [day_with [''Morning'', ''Afternoon'', ''Evening'']]"]
        ItinerarySchema_accepts_valid_itineraries [of "JArray [day_with [''Morning'']]"]
        ItinerarySchema_accepts_valid_itineraries [of "JArray [day_with []]"]
        ItinerarySchema_accepts_valid_itineraries [of "JArray [day_with [''Noon'']]"]
  by (simp add: valid_itinerary_def nonempty_array_of_def valid_day_def valid_activity_def
      positive_whole_def nonempty_text_def time_slot_def field_def day_with_def activity_at_def)

section \<open>Properties of the request handler\<close>

lemma RequestSchema_parse_iff: "(\<exists>out. RequestSchema_parse v = Inr out) \<longleftrightarrow> valid_request v"
  by (simp add: RequestSchema_parse_def Let_def RequestSchema_accepts)








section \<open>Properties of the encoder and the decoder\<close>








section \<open>Properties of the partial update\<close>













section \<open>Properties of the generation client\<close>




















section \<open>Properties of the background task\<close>






















end
